theory Spec2Isabelle
  imports Complex_Main "HOL-Library.AList"
begin

section \<open>Python strings\<close>

text \<open>
  A Python \<open>str\<close> is modelled as a \<open>string\<close>: a list of \<open>char\<close>, each one code point in
  the range 0..255 (ASCII and Latin-1). Code points above 255 are outside the model.
  \<open>None\<close> is modelled by \<open>option\<close>.
\<close>

definition is_space :: "char \<Rightarrow> bool" where
  \<comment> \<open>\<open>str.isspace\<close>, which is also what \<open>\s\<close> and \<open>str.split()\<close> use: tab, LF, VT, FF, CR,
      FS, GS, RS, US, space, NEL and the no-break space.\<close>
  "is_space c =
     (let n = (of_char c :: nat)
      in (9 \<le> n \<and> n \<le> 13) \<or> (28 \<le> n \<and> n \<le> 32) \<or> n = 133 \<or> n = 160)"

definition is_ascii_alpha :: "char \<Rightarrow> bool" where
  \<comment> \<open>the character class \<open>a-zA-Z\<close>\<close>
  "is_ascii_alpha c =
     (let n = (of_char c :: nat) in (65 \<le> n \<and> n \<le> 90) \<or> (97 \<le> n \<and> n \<le> 122))"

definition is_ascii_lower :: "char \<Rightarrow> bool" where
  \<comment> \<open>the letters \<open>a-z\<close>\<close>
  "is_ascii_lower c = (let n = (of_char c :: nat) in 97 \<le> n \<and> n \<le> 122)"

definition lower_char :: "char \<Rightarrow> char" where
  \<comment> \<open>\<open>str.lower\<close> on one code point: A-Z, and the Latin-1 capitals (all of C0..DE but the
      multiplication sign D7), move up by 32.\<close>
  "lower_char c =
     (let n = (of_char c :: nat)
      in if (65 \<le> n \<and> n \<le> 90) \<or> (192 \<le> n \<and> n \<le> 222 \<and> n \<noteq> 215)
         then char_of (n + 32) else c)"

definition py_lower :: "string \<Rightarrow> string" where
  "py_lower s = map lower_char s"

definition strip_non_alpha :: "string \<Rightarrow> string" where
  \<comment> \<open>\<open>re.sub(r'[^a-zA-Z\s]', '', s)\<close>\<close>
  "strip_non_alpha s = filter (\<lambda>c. is_ascii_alpha c \<or> is_space c) s"

fun split_acc :: "string \<Rightarrow> string \<Rightarrow> string list" where
  "split_acc cur [] = (if cur = [] then [] else [cur])"
| "split_acc cur (c # cs) =
     (if is_space c
      then (if cur = [] then split_acc [] cs else cur # split_acc [] cs)
      else split_acc (cur @ [c]) cs)"

definition py_split :: "string \<Rightarrow> string list" where
  \<comment> \<open>\<open>s.split()\<close>: the maximal runs of non-whitespace characters, in order\<close>
  "py_split s = split_acc [] s"

definition py_join :: "string \<Rightarrow> string list \<Rightarrow> string" where
  \<comment> \<open>\<open>sep.join(xs)\<close>\<close>
  "py_join sep xs = (case xs of [] \<Rightarrow> [] | y # ys \<Rightarrow> y @ concat (map (\<lambda>z. sep @ z) ys))"

definition py_replace_Z :: "string \<Rightarrow> string" where
  \<comment> \<open>\<open>s.replace('Z', '+00:00')\<close>\<close>
  "py_replace_Z s = concat (map (\<lambda>c. if c = CHR ''Z'' then ''+00:00'' else [c]) s)"

definition str_of :: "string option \<Rightarrow> string" where
  \<comment> \<open>how an f-string formats a value that is a \<open>str\<close> or \<open>None\<close>\<close>
  "str_of v = (case v of None \<Rightarrow> ''None'' | Some s \<Rightarrow> s)"


section \<open>collections.Counter\<close>

text \<open>
  A \<open>Counter\<close> is a dict, which keeps its keys in the order of their first insertion: an
  association list. \<open>Counter(words)\<close> runs \<open>mapping[elem] = mapping.get(elem, 0) + 1\<close> for
  each element in turn.
\<close>

definition counter_get :: "(string \<times> nat) list \<Rightarrow> string \<Rightarrow> nat" where
  "counter_get m k = (case map_of m k of None \<Rightarrow> 0 | Some c \<Rightarrow> c)"

fun count_elements :: "(string \<times> nat) list \<Rightarrow> string list \<Rightarrow> (string \<times> nat) list" where
  "count_elements m [] = m"
| "count_elements m (elem # rest) =
     count_elements (AList.update elem (counter_get m elem + 1) m) rest"

definition Counter :: "string list \<Rightarrow> (string \<times> nat) list" where
  "Counter ws = count_elements [] ws"

definition most_common :: "(string \<times> nat) list \<Rightarrow> int \<Rightarrow> (string \<times> nat) list" where
  \<comment> \<open>\<open>most_common(n)\<close> is \<open>heapq.nlargest(n, items, key=itemgetter(1))\<close>, that is
      \<open>sorted(items, key=itemgetter(1), reverse=True)[:n]\<close>: a stable sort, so items of equal
      count stay in dict order; a negative \<open>n\<close> gives the empty list.\<close>
  "most_common m n = take (nat n) (sort_key (\<lambda>p. - int (snd p)) m)"


section \<open>NewsAnalyzer.extract_keywords\<close>

definition stop_words :: "string list" where
  "stop_words =
    [''the'', ''and'', ''or'', ''but'', ''in'', ''on'', ''at'', ''to'', ''for'', ''of'', ''with'',
     ''by'', ''from'', ''up'', ''about'', ''into'', ''through'', ''during'', ''before'',
     ''after'', ''above'', ''below'', ''between'', ''among'', ''this'', ''that'', ''these'',
     ''those'', ''is'', ''are'', ''was'', ''were'', ''be'', ''been'', ''being'', ''have'',
     ''has'', ''had'', ''do'', ''does'', ''did'', ''will'', ''would'', ''could'', ''should'',
     ''may'', ''might'', ''must'', ''can'', ''said'', ''says'', ''news'', ''report'']"

definition keyword_words :: "string \<Rightarrow> string list" where
  \<comment> \<open>the list \<open>words\<close> of the source: the cleaned text, split and filtered\<close>
  "keyword_words text =
     [word \<leftarrow> py_split (strip_non_alpha (py_lower text)).
        3 \<le> length word \<and> word \<notin> set stop_words]"

definition extract_keywords :: "string \<Rightarrow> int \<Rightarrow> string list" where
  "extract_keywords text num_keywords =
     (if text = [] then []
      else let words = keyword_words text;
               word_freq = Counter words
           in map fst (most_common word_freq num_keywords))"












section \<open>NewsAnalyzer.analyze_sentiment\<close>

text \<open>
  A Python float is modelled by the real number it denotes. The literal \<open>0.1\<close> of the
  source is the double nearest to one tenth, \<open>3602879701896397 / 2^55\<close>, and \<open>-0.1\<close> is its
  negation; comparing two finite doubles is comparing the reals they denote.

  TextBlob is an optional import: \<open>HAS_TEXTBLOB\<close> says whether it was found, and
  \<open>blob.sentiment.polarity\<close> is an oracle from the text to a float, \<open>None\<close> when anything
  inside the \<open>try\<close> block raises.
\<close>

definition py_0_1 :: real where
  "py_0_1 = 3602879701896397 / 36028797018963968"

definition analyze_sentiment :: "bool \<Rightarrow> (string \<Rightarrow> real option) \<Rightarrow> string \<Rightarrow> real \<times> string" where
  "analyze_sentiment HAS_TEXTBLOB polarity_of text =
     (if \<not> HAS_TEXTBLOB \<or> text = [] then (0, ''neutral'')
      else case polarity_of text of
             None \<Rightarrow> (0, ''neutral'')
           | Some polarity \<Rightarrow>
               (polarity,
                if polarity > py_0_1 then ''positive''
                else if polarity < - py_0_1 then ''negative''
                else ''neutral''))"


section \<open>NewsArticle and NewsAnalyzer.process_article\<close>

text \<open>
  The attributes of a \<open>NewsArticle\<close> that come from the API are a \<open>str\<close> or \<open>None\<close>;
  \<open>published_at\<close> is a \<open>datetime\<close>, a type parameter of the model.
\<close>

record 'd news_article =
  title :: "string option"
  description :: "string option"
  url :: "string option"
  source :: "string option"
  published_at :: 'd
  image_url :: "string option"
  content :: "string option"
  sentiment_score :: real
  sentiment_label :: string
  keywords' :: "string list"

definition NewsArticle ::
  "string option \<Rightarrow> string option \<Rightarrow> string option \<Rightarrow> string option \<Rightarrow> 'd \<Rightarrow>
   string option \<Rightarrow> string option \<Rightarrow> 'd news_article" where
  "NewsArticle t d u s p i c =
     \<lparr>title = t, description = d, url = u, source = s, published_at = p, image_url = i,
      content = c, sentiment_score = 0, sentiment_label = ''neutral'', keywords' = []\<rparr>"

definition full_text :: "'d news_article \<Rightarrow> string" where
  \<comment> \<open>\<open>f"{article.title} {article.description}"\<close>\<close>
  "full_text article = str_of (title article) @ '' '' @ str_of (description article)"

definition process_article ::
  "bool \<Rightarrow> (string \<Rightarrow> real option) \<Rightarrow> 'd news_article \<Rightarrow> 'd news_article" where
  "process_article HAS_TEXTBLOB polarity_of article =
     (let (score, label) = analyze_sentiment HAS_TEXTBLOB polarity_of (full_text article)
      in article\<lparr>sentiment_score := score, sentiment_label := label,
                 keywords' := extract_keywords (full_text article) 5\<rparr>)"


section \<open>NewsAnalyzer.fetch_news\<close>

text \<open>
  The JSON payload. Every entry of an item that the code reads is, in the schema of the API,
  a string or \<open>null\<close>, and a key may be absent; \<open>source\<close> is an object with a \<open>name\<close>.
  Values of other JSON types in these places are outside the model.
\<close>

datatype field = Absent | Null | Str string

datatype source_field = Source_absent | Source_null | Source_obj field

record raw_item =
  item_title :: field
  item_description :: field
  item_url :: field
  item_source :: source_field
  item_publishedAt :: field
  item_urlToImage :: field
  item_content :: field

record api_data =
  data_status :: field
  data_message :: field
  data_articles :: "raw_item list option"

datatype py_exc =
    KeyError string
  | TypeError
  | AttributeError
  | ValueError
  | ApiError string

datatype fetch_error =
    Network_error string        \<comment> \<open>\<open>Exception(f"Network error: {e}")\<close>\<close>
  | Error_fetching py_exc       \<comment> \<open>\<open>Exception(f"Error fetching news: {e}")\<close>\<close>

definition dict_get :: "field \<Rightarrow> string option" where
  \<comment> \<open>\<open>d.get(k)\<close>\<close>
  "dict_get f = (case f of Absent \<Rightarrow> None | Null \<Rightarrow> None | Str s \<Rightarrow> Some s)"

definition dict_get_default :: "field \<Rightarrow> string \<Rightarrow> string option" where
  \<comment> \<open>\<open>d.get(k, default)\<close>: the default stands in for an absent key only\<close>
  "dict_get_default f dflt = (case f of Absent \<Rightarrow> Some dflt | Null \<Rightarrow> None | Str s \<Rightarrow> Some s)"

definition subscript :: "string \<Rightarrow> field \<Rightarrow> py_exc + string option" where
  \<comment> \<open>\<open>d[k]\<close>\<close>
  "subscript k f =
     (case f of Absent \<Rightarrow> Inl (KeyError k) | Null \<Rightarrow> Inr None | Str s \<Rightarrow> Inr (Some s))"

definition source_name :: "source_field \<Rightarrow> py_exc + string option" where
  \<comment> \<open>\<open>item['source']['name']\<close>\<close>
  "source_name f =
     (case f of
        Source_absent \<Rightarrow> Inl (KeyError ''source'')
      | Source_null \<Rightarrow> Inl TypeError
      | Source_obj n \<Rightarrow> subscript ''name'' n)"

definition truthy :: "string option \<Rightarrow> bool" where
  "truthy v = (case v of None \<Rightarrow> False | Some s \<Rightarrow> s \<noteq> [])"

definition usable_title :: "raw_item \<Rightarrow> bool" where
  \<comment> \<open>\<open>item.get('title') and item.get('title') != '[Removed]'\<close>\<close>
  "usable_title item =
     (truthy (dict_get (item_title item)) \<and> dict_get (item_title item) \<noteq> Some ''[Removed]'')"

definition make_article :: "(string \<Rightarrow> 'd option) \<Rightarrow> raw_item \<Rightarrow> py_exc + 'd news_article" where
  \<comment> \<open>the call \<open>NewsArticle(title=..., ...)\<close> of the loop body, its arguments evaluated from
      left to right; \<open>fromisoformat\<close> is \<open>datetime.fromisoformat\<close>, \<open>None\<close> where it raises
      \<open>ValueError\<close>\<close>
  "make_article fromisoformat item =
     (case subscript ''title'' (item_title item) of Inl e \<Rightarrow> Inl e | Inr t \<Rightarrow>
      case subscript ''url'' (item_url item) of Inl e \<Rightarrow> Inl e | Inr u \<Rightarrow>
      case source_name (item_source item) of Inl e \<Rightarrow> Inl e | Inr s \<Rightarrow>
      case subscript ''publishedAt'' (item_publishedAt item) of Inl e \<Rightarrow> Inl e
      | Inr None \<Rightarrow> Inl AttributeError
      | Inr (Some ds) \<Rightarrow>
          (case fromisoformat (py_replace_Z ds) of
             None \<Rightarrow> Inl ValueError
           | Some p \<Rightarrow>
               Inr (NewsArticle t (dict_get_default (item_description item) []) u s p
                      (dict_get (item_urlToImage item))
                      (dict_get_default (item_content item) []))))"

fun fetch_loop ::
  "(string \<Rightarrow> 'd option) \<Rightarrow> raw_item list \<Rightarrow> 'd news_article list \<Rightarrow>
   py_exc + 'd news_article list" where
  "fetch_loop fromisoformat [] articles = Inr articles"
| "fetch_loop fromisoformat (item # items) articles =
     (if usable_title item
      then (case make_article fromisoformat item of
              Inl e \<Rightarrow> Inl e
            | Inr article \<Rightarrow> fetch_loop fromisoformat items (articles @ [article]))
      else fetch_loop fromisoformat items articles)"

definition fetch_news ::
  "(string \<Rightarrow> 'd option) \<Rightarrow> string + api_data \<Rightarrow> fetch_error + 'd news_article list" where
  \<comment> \<open>the \<open>try\<close> block, from the outcome of the HTTP request: \<open>Inl msg\<close> when \<open>requests\<close>
      raised a \<open>RequestException\<close>, \<open>Inr data\<close> for the decoded body\<close>
  "fetch_news fromisoformat response =
     (case response of
        Inl msg \<Rightarrow> Inl (Network_error msg)
      | Inr data \<Rightarrow>
          if dict_get (data_status data) \<noteq> Some ''ok''
          then Inl (Error_fetching
                 (ApiError (''API Error: '' @
                    str_of (dict_get_default (data_message data) ''Unknown error''))))
          else (case fetch_loop fromisoformat
                       (case data_articles data of None \<Rightarrow> [] | Some items \<Rightarrow> items) [] of
                  Inl e \<Rightarrow> Inl (Error_fetching e)
                | Inr articles \<Rightarrow> Inr articles))"


section \<open>The SQLite database\<close>

text \<open>
  The two tables of \<open>setup_database\<close>, each a list of rows in rowid order, with the value of
  its AUTOINCREMENT sequence. A nullable TEXT column is a \<open>string option\<close>; \<open>title\<close> is
  \<open>NOT NULL\<close>. The columns \<open>published_at\<close>, \<open>sentiment_score\<close>, \<open>sentiment_label\<close> and
  \<open>keywords\<close> hold what the two INSERT statements of the source always bind: a \<open>str\<close> or a
  float. \<open>CURRENT_TIMESTAMP\<close> is the argument \<open>now\<close> of the operations, in seconds.
\<close>

record article_row =
  row_id :: nat
  row_title :: string
  row_description :: "string option"
  row_content :: "string option"
  row_url :: "string option"
  row_source :: "string option"
  row_published_at :: string
  row_image_url :: "string option"
  row_sentiment_score :: real
  row_sentiment_label :: string
  row_keywords :: string
  row_category :: "string option"
  row_bookmarked :: int
  row_created_at :: nat

record search_row =
  search_id :: nat
  search_query :: string
  search_category :: "string option"
  search_timestamp :: nat

record database =
  articles :: "article_row list"
  articles_seq :: nat
  searches :: "search_row list"
  searches_seq :: nat

definition setup_database :: database where
  \<comment> \<open>the tables as \<open>CREATE TABLE IF NOT EXISTS\<close> makes them in a new file\<close>
  "setup_database = \<lparr>articles = [], articles_seq = 0, searches = [], searches_seq = 0\<rparr>"

datatype sqlite_error = IntegrityError string

definition url_conflict :: "string option \<Rightarrow> article_row \<Rightarrow> bool" where
  \<comment> \<open>\<open>url TEXT UNIQUE\<close>: two rows conflict when their urls are equal and not NULL\<close>
  "url_conflict u r = (u \<noteq> None \<and> row_url r = u)"

definition insert_row :: "database \<Rightarrow> article_row \<Rightarrow> database" where
  \<comment> \<open>the new row takes the next value of the sequence as its id\<close>
  "insert_row db r =
     db\<lparr>articles := articles db @ [r\<lparr>row_id := Suc (articles_seq db)\<rparr>],
        articles_seq := Suc (articles_seq db)\<rparr>"

definition delete_conflicts :: "database \<Rightarrow> string option \<Rightarrow> database" where
  "delete_conflicts db u = db\<lparr>articles := [r \<leftarrow> articles db. \<not> url_conflict u r]\<rparr>"

definition article_values ::
  "('d \<Rightarrow> string) \<Rightarrow> nat \<Rightarrow> 'd news_article \<Rightarrow> string \<Rightarrow> string option \<Rightarrow> string option \<Rightarrow>
   int \<Rightarrow> article_row" where
  \<comment> \<open>the row that the VALUES clause makes of an article whose title is \<open>t\<close>; \<open>isoformat\<close> is
      \<open>datetime.isoformat\<close>\<close>
  "article_values isoformat now article t c category bookmarked =
     \<lparr>row_id = 0, row_title = t, row_description = description article, row_content = c,
      row_url = url article, row_source = source article,
      row_published_at = isoformat (published_at article),
      row_image_url = image_url article,
      row_sentiment_score = sentiment_score article,
      row_sentiment_label = sentiment_label article,
      row_keywords = py_join '','' (keywords' article),
      row_category = category, row_bookmarked = bookmarked, row_created_at = now\<rparr>"

definition insert_or_replace ::
  "('d \<Rightarrow> string) \<Rightarrow> nat \<Rightarrow> database \<Rightarrow> 'd news_article \<Rightarrow> string \<Rightarrow> sqlite_error + database" where
  \<comment> \<open>\<open>INSERT OR REPLACE INTO articles (title, ..., category) VALUES (...)\<close>: a NULL title
      aborts the statement; otherwise the rows in conflict on \<open>url\<close> are deleted and the new
      row is inserted, \<open>bookmarked\<close> taking its default 0\<close>
  "insert_or_replace isoformat now db article category =
     (case title article of
        None \<Rightarrow> Inl (IntegrityError ''NOT NULL constraint failed: articles.title'')
      | Some t \<Rightarrow>
          Inr (insert_row (delete_conflicts db (url article))
                 (article_values isoformat now article t (content article) (Some category) 0)))"

definition insert_bookmarked ::
  "('d \<Rightarrow> string) \<Rightarrow> nat \<Rightarrow> database \<Rightarrow> 'd news_article \<Rightarrow> sqlite_error + database" where
  \<comment> \<open>\<open>INSERT INTO articles (title, ..., keywords, bookmarked) VALUES (..., 1)\<close>, binding
      \<open>content or ''\<close>; \<open>category\<close> is left NULL\<close>
  "insert_bookmarked isoformat now db article =
     (case title article of
        None \<Rightarrow> Inl (IntegrityError ''NOT NULL constraint failed: articles.title'')
      | Some t \<Rightarrow>
          if \<exists>r \<in> set (articles db). url_conflict (url article) r
          then Inl (IntegrityError ''UNIQUE constraint failed: articles.url'')
          else Inr (insert_row db
                 (article_values isoformat now article t
                    (Some (case content article of None \<Rightarrow> [] | Some c \<Rightarrow> c)) None 1)))"


section \<open>NewsAnalyzer.save_articles\<close>

definition category_or_general :: "string option \<Rightarrow> string" where
  \<comment> \<open>\<open>category or 'general'\<close>\<close>
  "category_or_general category =
     (case category of None \<Rightarrow> ''general'' | Some c \<Rightarrow> if c = [] then ''general'' else c)"

fun save_loop ::
  "('d \<Rightarrow> string) \<Rightarrow> nat \<Rightarrow> string option \<Rightarrow> 'd news_article list \<Rightarrow> nat \<times> database \<Rightarrow>
   nat \<times> database" where
  "save_loop isoformat now category [] (saved_count, db) = (saved_count, db)"
| "save_loop isoformat now category (article # rest) (saved_count, db) =
     (case insert_or_replace isoformat now db article (category_or_general category) of
        Inl (IntegrityError m) \<Rightarrow> save_loop isoformat now category rest (saved_count, db)
      | Inr db' \<Rightarrow> save_loop isoformat now category rest (saved_count + 1, db'))"

definition save_articles ::
  "('d \<Rightarrow> string) \<Rightarrow> nat \<Rightarrow> database \<Rightarrow> 'd news_article list \<Rightarrow> string option \<Rightarrow>
   nat \<times> database" where
  \<comment> \<open>returns \<open>saved_count\<close> and the committed database\<close>
  "save_articles isoformat now db articles_in category =
     save_loop isoformat now category articles_in (0, db)"

definition rows_with_url :: "database \<Rightarrow> string \<Rightarrow> article_row list" where
  \<comment> \<open>\<open>SELECT * FROM articles WHERE url = ?\<close>\<close>
  "rows_with_url db u = [r \<leftarrow> articles db. row_url r = Some u]"


section \<open>ModernNewsGUI.toggle_bookmark\<close>

datatype dialog =
    Showinfo string string
  | Showerror string string

definition select_bookmarked :: "database \<Rightarrow> string option \<Rightarrow> int option" where
  \<comment> \<open>\<open>SELECT bookmarked FROM articles WHERE url = ?\<close> and \<open>fetchone()\<close>; no row has
      \<open>url = NULL\<close>\<close>
  "select_bookmarked db u =
     (case [r \<leftarrow> articles db. url_conflict u r] of
        [] \<Rightarrow> None
      | r # rs \<Rightarrow> Some (row_bookmarked r))"

definition update_bookmarked :: "database \<Rightarrow> int \<Rightarrow> string option \<Rightarrow> database" where
  \<comment> \<open>\<open>UPDATE articles SET bookmarked = ? WHERE url = ?\<close>\<close>
  "update_bookmarked db b u =
     db\<lparr>articles := map (\<lambda>r. if url_conflict u r then r\<lparr>row_bookmarked := b\<rparr> else r)
                        (articles db)\<rparr>"

definition toggle_bookmark ::
  "bool \<Rightarrow> (string \<Rightarrow> real option) \<Rightarrow> ('d \<Rightarrow> string) \<Rightarrow> nat \<Rightarrow> database \<Rightarrow> 'd news_article \<Rightarrow>
   database \<times> dialog" where
  \<comment> \<open>the database after the call and the message box it shows; the refresh of the bookmarks
      tab that follows is not part of the model\<close>
  "toggle_bookmark HAS_TEXTBLOB polarity_of isoformat now db article =
     (case select_bookmarked db (url article) of
        Some result \<Rightarrow>
          (let new_bookmark_state = 1 - result;
               action = (if new_bookmark_state \<noteq> 0 then ''added to'' else ''removed from'')
           in (update_bookmarked db new_bookmark_state (url article),
               Showinfo ''Bookmark'' (''Article '' @ action @ '' bookmarks!'')))
      | None \<Rightarrow>
          (let processed_article = process_article HAS_TEXTBLOB polarity_of article
           in case insert_bookmarked isoformat now db processed_article of
                Inl (IntegrityError m) \<Rightarrow>
                  (db, Showerror ''Error'' (''Failed to bookmark article: '' @ m))
              | Inr db' \<Rightarrow> (db', Showinfo ''Bookmark'' ''Article added to bookmarks!'')))"


section \<open>ModernNewsGUI.save_search_query and load_recent_searches\<close>

definition save_search_query :: "nat \<Rightarrow> database \<Rightarrow> string \<Rightarrow> database" where
  \<comment> \<open>\<open>INSERT INTO searches (query) VALUES (?)\<close>\<close>
  "save_search_query now db query =
     db\<lparr>searches := searches db @
            [\<lparr>search_id = Suc (searches_seq db), search_query = query,
              search_category = None, search_timestamp = now\<rparr>],
        searches_seq := Suc (searches_seq db)\<rparr>"

text \<open>
  \<open>SELECT DISTINCT query FROM searches ORDER BY timestamp DESC LIMIT 5\<close>, as SQLite runs it:
  the table is scanned in rowid order; a row whose \<open>query\<close> is already in the table of
  distinct values is skipped; each row that is kept goes to the sorter under the key
  (\<open>timestamp\<close> descending, sequence number ascending); the first five rows of the sorter are
  the result.
\<close>

fun select_distinct :: "string list \<Rightarrow> search_row list \<Rightarrow> search_row list" where
  "select_distinct seen [] = []"
| "select_distinct seen (r # rs) =
     (if search_query r \<in> set seen then select_distinct seen rs
      else r # select_distinct (search_query r # seen) rs)"

definition order_by_timestamp_desc :: "search_row list \<Rightarrow> search_row list" where
  "order_by_timestamp_desc rs = sort_key (\<lambda>r. - int (search_timestamp r)) rs"

definition load_recent_searches :: "database \<Rightarrow> string list" where
  \<comment> \<open>the texts of the buttons, from left to right\<close>
  "load_recent_searches db =
     map search_query (take 5 (order_by_timestamp_desc (select_distinct [] (searches db))))"

fun record_searches :: "database \<Rightarrow> (nat \<times> string) list \<Rightarrow> database" where
  \<comment> \<open>\<open>save_search_query\<close> for each query in turn, each at its own time\<close>
  "record_searches db [] = db"
| "record_searches db ((now, query) # rest) = record_searches (save_search_query now db query) rest"


definition data_items :: "api_data \<Rightarrow> raw_item list" where
  \<comment> \<open>\<open>data.get('articles', [])\<close>\<close>
  "data_items data = (case data_articles data of None \<Rightarrow> [] | Some items \<Rightarrow> items)"


section \<open>Sample inputs\<close>

text \<open>
  Concrete oracles, payloads and rows on which the theorems below are evaluated. The two
  date functions stand for \<open>datetime.fromisoformat\<close> and \<open>datetime.isoformat\<close> on a
  \<open>datetime\<close> written as its ISO text: \<open>sample_fromisoformat\<close> accepts the one well-formed
  date of the samples and rejects every other string.
\<close>

definition raising_oracle :: "string \<Rightarrow> real option" where
  "raising_oracle text = None"

definition constant_oracle :: "real \<Rightarrow> string \<Rightarrow> real option" where
  "constant_oracle p text = Some p"

definition sample_article :: "unit news_article" where
  "sample_article =
     NewsArticle (Some ''Markets rallied'') (Some ''Stocks gained'') None None () None None"

definition sample_fromisoformat :: "string \<Rightarrow> string option" where
  "sample_fromisoformat s = (if s = ''2024-05-01T10:00:00+00:00'' then Some s else None)"

definition sample_isoformat :: "string \<Rightarrow> string" where
  "sample_isoformat d = d"

definition removed_item :: raw_item where
  "removed_item =
     \<lparr>item_title = Str ''[Removed]'', item_description = Str ''[Removed]'',
      item_url = Str ''https://removed.com'', item_source = Source_obj (Str ''[Removed]''),
      item_publishedAt = Str ''not-a-date'', item_urlToImage = Null,
      item_content = Str ''[Removed]''\<rparr>"

definition good_item :: raw_item where
  "good_item =
     \<lparr>item_title = Str ''Markets rallied'', item_description = Null,
      item_url = Str ''https://example.com/a'', item_source = Source_obj (Str ''Example''),
      item_publishedAt = Str ''2024-05-01T10:00:00Z'', item_urlToImage = Null,
      item_content = Absent\<rparr>"

definition bad_date_item :: raw_item where
  "bad_date_item = good_item\<lparr>item_publishedAt := Str ''not-a-date''\<rparr>"

definition ok_data :: "raw_item list \<Rightarrow> api_data" where
  "ok_data items = \<lparr>data_status = Str ''ok'', data_message = Absent, data_articles = Some items\<rparr>"

definition article_a :: "string news_article" where
  "article_a = NewsArticle (Some ''First title'') (Some ''Old text'') (Some ''https://example.com/a'')
     (Some ''Example'') ''2024-05-01T10:00:00+00:00'' None None"

definition article_b :: "string news_article" where
  "article_b = NewsArticle (Some ''Second title'') (Some ''New text'') (Some ''https://example.com/a'')
     (Some ''Example'') ''2024-05-02T10:00:00+00:00'' None None"

definition bookmarked_row :: article_row where
  "bookmarked_row =
     \<lparr>row_id = 1, row_title = ''First title'', row_description = Some ''Old text'',
      row_content = Some [], row_url = Some ''https://example.com/a'',
      row_source = Some ''Example'', row_published_at = ''2024-05-01T10:00:00+00:00'',
      row_image_url = None, row_sentiment_score = 0, row_sentiment_label = ''neutral'',
      row_keywords = ''first,title,old,text'', row_category = None, row_bookmarked = 1,
      row_created_at = 1\<rparr>"

definition sample_db :: database where
  "sample_db = \<lparr>articles = [bookmarked_row], articles_seq = 1, searches = [], searches_seq = 0\<rparr>"


section \<open>Keyword extraction: the words and their order\<close>




lemma not_space_lower: "is_ascii_lower c \<Longrightarrow> \<not> is_space c"
  by (auto simp: is_ascii_lower_def is_space_def Let_def)



































text \<open>
  C5. On the text "The Markets Rallied As Markets Gained Momentum" with \<open>N = 5\<close> the claim
  expects the keywords markets, gained, momentum, rallied. The code does not return that
  list.
\<close>

theorem extract_keywords_markets_counterexample:
  "extract_keywords ''The Markets Rallied As Markets Gained Momentum'' 5 \<noteq>
     [''markets'', ''gained'', ''momentum'', ''rallied'']"
  by code_simp

text \<open>
  C5, as amended. On that text with \<open>N = 5\<close>, \<open>extract_keywords\<close> returns markets, rallied,
  gained, momentum: markets first, of frequency 2, then the three words of frequency 1 in the
  order in which the text has them.
\<close>

theorem extract_keywords_markets:
  "extract_keywords ''The Markets Rallied As Markets Gained Momentum'' 5 =
     [''markets'', ''rallied'', ''gained'', ''momentum'']"
  by code_simp


section \<open>Sentiment\<close>

lemma py_0_1_bounds: "1 / 10 < py_0_1 \<and> py_0_1 < 1 / 10 + 1 / 10 ^ 17"
  by (simp add: py_0_1_def)

text \<open>
  C7. For every polarity that the oracle returns, \<open>analyze_sentiment\<close> returns that polarity
  and labels the text positive exactly when the polarity is greater than the literal \<open>0.1\<close>,
  negative exactly when it is less than \<open>-0.1\<close>, and neutral otherwise. The thresholds are
  the constant \<open>py_0_1\<close> and its negation, not arguments of the call; \<open>py_0_1\<close> is the double
  that the literal denotes, within \<open>10^-17\<close> above one tenth.
\<close>

theorem analyze_sentiment_thresholds:
  assumes "HAS_TEXTBLOB" and "t \<noteq> []" and "polarity_of t = Some p"
  shows "fst (analyze_sentiment HAS_TEXTBLOB polarity_of t) = p \<and>
    (snd (analyze_sentiment HAS_TEXTBLOB polarity_of t) = ''positive'' \<longleftrightarrow> p > py_0_1) \<and>
    (snd (analyze_sentiment HAS_TEXTBLOB polarity_of t) = ''negative'' \<longleftrightarrow> p < - py_0_1) \<and>
    (snd (analyze_sentiment HAS_TEXTBLOB polarity_of t) = ''neutral'' \<longleftrightarrow>
       \<not> p > py_0_1 \<and> \<not> p < - py_0_1) \<and>
    1 / 10 < py_0_1 \<and> py_0_1 < 1 / 10 + 1 / 10 ^ 17"
proof -
  have pos: "0 < py_0_1" by (simp add: py_0_1_def)
  from assms have "analyze_sentiment HAS_TEXTBLOB polarity_of t =
      (p, if p > py_0_1 then ''positive'' else if p < - py_0_1 then ''negative'' else ''neutral'')"
    by (simp add: analyze_sentiment_def)
  with pos py_0_1_bounds show ?thesis by auto
qed


theorem analyze_sentiment_thresholds_witness:
  "fst (analyze_sentiment True (constant_oracle (7 / 10)) ''good'') = 7 / 10 \<and>
   snd (analyze_sentiment True (constant_oracle (7 / 10)) ''good'') = ''positive'' \<and>
   snd (analyze_sentiment True (constant_oracle (1 / 10)) ''fine'') = ''neutral'' \<and>
   snd (analyze_sentiment True (constant_oracle (- 1 / 2)) ''bad'') = ''negative''"
proof -
  have a: "constant_oracle (7 / 10) ''good'' = Some (7 / 10)"
    and b: "constant_oracle (1 / 10) ''fine'' = Some (1 / 10)"
    and c: "constant_oracle (- 1 / 2) ''bad'' = Some (- 1 / 2)"
    by (simp_all add: constant_oracle_def)
  have "(7 / 10 :: real) > py_0_1" "\<not> (1 / 10 :: real) > py_0_1" "\<not> (1 / 10 :: real) < - py_0_1"
    "(- 1 / 2 :: real) < - py_0_1"
    by (simp_all add: py_0_1_def)
  with analyze_sentiment_thresholds[of True "''good''" "constant_oracle (7 / 10)" "7 / 10"]
    analyze_sentiment_thresholds[of True "''fine''" "constant_oracle (1 / 10)" "1 / 10"]
    analyze_sentiment_thresholds[of True "''bad''" "constant_oracle (- 1 / 2)" "- 1 / 2"]
    a b c
  show ?thesis by simp
qed


section \<open>Enrichment\<close>

lemma full_text_nonempty: "full_text a \<noteq> []"
  by (simp add: full_text_def)

text \<open>
  C3. The claim has \<open>process_article\<close> degrade to score 0.0, label neutral and empty keywords
  when the scoring oracle is unavailable. On an article with a title and a description and
  without TextBlob the score is 0.0 and the label neutral, but the keywords are not empty.
\<close>

theorem process_article_degrade_counterexample:
  "sentiment_score (process_article False raising_oracle sample_article) = 0 \<and>
   sentiment_label (process_article False raising_oracle sample_article) = ''neutral'' \<and>
   keywords' (process_article False raising_oracle sample_article) \<noteq> []"
proof -
  have "full_text sample_article = ''Markets rallied Stocks gained''"
    by (simp add: full_text_def sample_article_def NewsArticle_def str_of_def)
  moreover have "extract_keywords ''Markets rallied Stocks gained'' 5 = [''markets'', ''rallied'', ''stocks'', ''gained'']"
    by code_simp
  ultimately show ?thesis
    by (simp add: process_article_def analyze_sentiment_def)
qed

text \<open>
  C3, as amended. \<open>process_article\<close> is a total function of the title and the description
  (and of the oracle): two articles with the same title and description get the same score,
  label and keywords. When TextBlob is unavailable or the oracle raises, the score is 0.0 and
  the label neutral; the keywords do not depend on the oracle, they are always those
  extracted from the text. On the empty text \<open>analyze_sentiment\<close> gives 0.0 and neutral and
  \<open>extract_keywords\<close> gives no keyword.
\<close>

theorem process_article_total_deterministic:
  "(title a = title b \<and> description a = description b \<longrightarrow>
      sentiment_score (process_article h p a) = sentiment_score (process_article h p b) \<and>
      sentiment_label (process_article h p a) = sentiment_label (process_article h p b) \<and>
      keywords' (process_article h p a) = keywords' (process_article h p b)) \<and>
   (\<not> h \<or> p (full_text a) = None \<longrightarrow>
      sentiment_score (process_article h p a) = 0 \<and>
      sentiment_label (process_article h p a) = ''neutral'') \<and>
   keywords' (process_article h p a) = extract_keywords (full_text a) 5 \<and>
   analyze_sentiment h p [] = (0, ''neutral'') \<and>
   extract_keywords [] n = []"
  by (auto simp: process_article_def analyze_sentiment_def full_text_def extract_keywords_def
      split: prod.splits option.splits)

theorem process_article_total_deterministic_witness:
  "sentiment_score (process_article False raising_oracle sample_article) = 0 \<and>
   sentiment_label (process_article False raising_oracle sample_article) = ''neutral'' \<and>
   keywords' (process_article False raising_oracle sample_article) =
     [''markets'', ''rallied'', ''stocks'', ''gained'']"
proof -
  have "full_text sample_article = ''Markets rallied Stocks gained''"
    by (simp add: full_text_def sample_article_def NewsArticle_def str_of_def)
  moreover have "extract_keywords ''Markets rallied Stocks gained'' 5 = [''markets'', ''rallied'', ''stocks'', ''gained'']"
    by code_simp
  ultimately show ?thesis
    using process_article_total_deterministic[of sample_article sample_article False raising_oracle 5]
    by simp
qed


section \<open>Fetching\<close>

lemma usable_title_iff:
  "usable_title item \<longleftrightarrow> (\<exists>s. item_title item = Str s \<and> s \<noteq> [] \<and> s \<noteq> ''[Removed]'')"
  by (cases "item_title item") (auto simp: usable_title_def truthy_def dict_get_def)

lemma make_article_title:
  "make_article f item = Inr a \<Longrightarrow> title a = dict_get (item_title item)"
  by (cases "item_title item")
     (auto simp: make_article_def subscript_def dict_get_def NewsArticle_def
           split: sum.splits option.splits)

lemma fetch_loop_filter:
  "fetch_loop f items acc = fetch_loop f (filter usable_title items) acc"
  by (induction items arbitrary: acc) (auto split: sum.splits)

lemma fetch_loop_titles:
  "fetch_loop f items acc = Inr arts \<Longrightarrow>
   map title arts = map title acc @ map (\<lambda>i. dict_get (item_title i)) (filter usable_title items)"
proof (induction items arbitrary: acc)
  case Nil
  then show ?case by simp
next
  case (Cons item items)
  show ?case
  proof (cases "usable_title item")
    case False
    with Cons show ?thesis by simp
  next
    case True
    with Cons.prems obtain a where a: "make_article f item = Inr a"
      and rest: "fetch_loop f items (acc @ [a]) = Inr arts"
      by (auto split: sum.splits)
    from Cons.IH[OF rest] make_article_title[OF a] True show ?thesis by simp
  qed
qed

lemma fetch_loop_none_usable:
  "\<forall>i\<in>set items. \<not> usable_title i \<Longrightarrow> fetch_loop f items acc = Inr acc"
  by (induction items arbitrary: acc) auto

text \<open>
  C4. An item whose title is absent, null, empty or equal to "[Removed]" is left out of the
  list that \<open>fetch_news\<close> returns, and it raises nothing: the outcome of the call, a list or
  an error, is the outcome on the payload without these items. The titles returned are the
  usable titles of the payload, in order, so which items are left out is a function of the
  payload; a payload with no usable title gives the empty list.
\<close>

theorem fetch_news_drops_unusable:
  "fetch_news f (Inr data) =
     fetch_news f (Inr (data\<lparr>data_articles := Some (filter usable_title (data_items data))\<rparr>)) \<and>
   (fetch_news f (Inr data) = Inr arts \<longrightarrow>
      map title arts = map (\<lambda>i. dict_get (item_title i)) (filter usable_title (data_items data))) \<and>
   (dict_get (data_status data) = Some ''ok'' \<and> (\<forall>i\<in>set (data_items data). \<not> usable_title i) \<longrightarrow>
      fetch_news f (Inr data) = Inr []) \<and>
   (usable_title item \<longleftrightarrow>
      (\<exists>s. item_title item = Str s \<and> s \<noteq> [] \<and> s \<noteq> ''[Removed]''))"
proof -
  have a: "fetch_news f (Inr data) =
     fetch_news f (Inr (data\<lparr>data_articles := Some (filter usable_title (data_items data))\<rparr>))"
    using fetch_loop_filter[of f "data_items data" "[]"]
    by (simp add: fetch_news_def data_items_def)
  have b: "fetch_news f (Inr data) = Inr arts \<longrightarrow>
      map title arts = map (\<lambda>i. dict_get (item_title i)) (filter usable_title (data_items data))"
  proof
    assume "fetch_news f (Inr data) = Inr arts"
    then have "fetch_loop f (data_items data) [] = Inr arts"
      by (auto simp: fetch_news_def data_items_def split: if_splits sum.splits)
    from fetch_loop_titles[OF this] show "map title arts =
      map (\<lambda>i. dict_get (item_title i)) (filter usable_title (data_items data))" by simp
  qed
  have c: "dict_get (data_status data) = Some ''ok'' \<and> (\<forall>i\<in>set (data_items data). \<not> usable_title i) \<longrightarrow>
      fetch_news f (Inr data) = Inr []"
    using fetch_loop_none_usable[of "data_items data" f "[]"]
    by (auto simp: fetch_news_def data_items_def)
  from a b c usable_title_iff[of item] show ?thesis by blast
qed


theorem fetch_news_drops_unusable_witness:
  "fetch_news sample_fromisoformat (Inr (ok_data [removed_item, good_item])) =
     fetch_news sample_fromisoformat (Inr (ok_data [good_item])) \<and>
   fetch_news sample_fromisoformat (Inr (ok_data [removed_item])) = Inr [] \<and>
   \<not> usable_title removed_item \<and> usable_title good_item"
proof -
  have r: "\<not> usable_title removed_item" and g: "usable_title good_item"
    by (simp_all add: usable_title_def truthy_def dict_get_def removed_item_def good_item_def)
  have d1: "data_items (ok_data [removed_item, good_item]) = [removed_item, good_item]"
    and d2: "data_items (ok_data [removed_item]) = [removed_item]"
    by (simp_all add: data_items_def ok_data_def)
  from r g have fl: "filter usable_title [removed_item, good_item] = [good_item]" by simp
  have e1: "(ok_data [removed_item, good_item])\<lparr>data_articles := Some [good_item]\<rparr> = ok_data [good_item]"
    by (simp add: ok_data_def)
  have s: "dict_get (data_status (ok_data [removed_item])) = Some ''ok''"
    by (simp add: ok_data_def dict_get_def)
  have A: "fetch_news sample_fromisoformat (Inr (ok_data [removed_item, good_item])) =
     fetch_news sample_fromisoformat (Inr (ok_data [good_item]))"
    using fetch_news_drops_unusable[where f = sample_fromisoformat
        and data = "ok_data [removed_item, good_item]", THEN conjunct1]
    unfolding d1 fl e1 .
  have "dict_get (data_status (ok_data [removed_item])) = Some ''ok'' \<and>
      (\<forall>i\<in>set (data_items (ok_data [removed_item])). \<not> usable_title i) \<longrightarrow>
      fetch_news sample_fromisoformat (Inr (ok_data [removed_item])) = Inr []"
    using fetch_news_drops_unusable[where f = sample_fromisoformat
        and data = "ok_data [removed_item]"] by blast
  with s r have B: "fetch_news sample_fromisoformat (Inr (ok_data [removed_item])) = Inr []"
    by (simp add: d2)
  from A B r g show ?thesis by blast
qed

text \<open>
  C10. The claim has the whole call fail as soon as any item of the payload carries a
  malformed \<open>publishedAt\<close>. An item without a usable title is skipped before its date is
  read: with such an item first and a well-formed item after it, the call returns the
  article of the second.
\<close>

theorem fetch_news_bad_date_counterexample:
  "item_publishedAt removed_item = Str ''not-a-date'' \<and>
   sample_fromisoformat (py_replace_Z ''not-a-date'') = None \<and>
   fetch_news sample_fromisoformat (Inr (ok_data [removed_item, good_item])) =
     Inr [NewsArticle (Some ''Markets rallied'') None (Some ''https://example.com/a'')
            (Some ''Example'') ''2024-05-01T10:00:00+00:00'' None (Some [])]"
  by (simp add: fetch_news_def ok_data_def dict_get_def dict_get_default_def usable_title_def
      truthy_def removed_item_def good_item_def make_article_def subscript_def source_name_def
      sample_fromisoformat_def py_replace_Z_def)

lemma make_article_bad_date:
  "item_publishedAt item = Str ds \<Longrightarrow> f (py_replace_Z ds) = None \<Longrightarrow>
   \<exists>e. make_article f item = Inl e"
  by (auto simp: make_article_def subscript_def split: sum.splits option.splits field.splits)

lemma fetch_loop_bad_date:
  "i \<in> set items \<Longrightarrow> usable_title i \<Longrightarrow> item_publishedAt i = Str ds \<Longrightarrow>
   f (py_replace_Z ds) = None \<Longrightarrow> \<exists>e. fetch_loop f items acc = Inl e"
proof (induction items arbitrary: acc)
  case Nil
  then show ?case by simp
next
  case (Cons item items)
  show ?case
  proof (cases "i = item")
    case True
    with Cons.prems make_article_bad_date[of item ds f] show ?thesis by auto
  next
    case False
    with Cons.prems have "i \<in> set items" by simp
    with Cons.IH Cons.prems(2-4) have "\<And>acc'. \<exists>e. fetch_loop f items acc' = Inl e"
      by blast
    then show ?thesis by (auto split: sum.splits)
  qed
qed

lemma fetch_loop_append:
  "fetch_loop f (pre @ post) acc =
     (case fetch_loop f pre acc of Inl e \<Rightarrow> Inl e | Inr acc' \<Rightarrow> fetch_loop f post acc')"
  by (induction pre arbitrary: acc) (auto split: sum.splits)

lemma make_article_ValueError:
  "subscript ''url'' (item_url item) = Inr u \<Longrightarrow> source_name (item_source item) = Inr s \<Longrightarrow>
   usable_title item \<Longrightarrow> item_publishedAt item = Str ds \<Longrightarrow> f (py_replace_Z ds) = None \<Longrightarrow>
   make_article f item = Inl ValueError"
  by (auto simp: make_article_def subscript_def usable_title_iff)

text \<open>
  C10, as amended. If an item with a usable title carries a malformed \<open>publishedAt\<close>, the
  call fails with "Error fetching news" and returns no article, whatever comes before or
  after the item. The error is the parsing error (\<open>ValueError\<close>) when the API status is ok,
  the items before it are processed without error and the item has its \<open>url\<close> and its
  \<open>source\<close> name.
\<close>

theorem fetch_news_bad_date_fails:
  "(i \<in> set (data_items data) \<and> usable_title i \<and> item_publishedAt i = Str ds \<and>
      f (py_replace_Z ds) = None \<longrightarrow>
      (\<exists>e. fetch_news f (Inr data) = Inl (Error_fetching e))) \<and>
   (dict_get (data_status data) = Some ''ok'' \<and> data_items data = pre @ i # post \<and>
      fetch_loop f pre [] = Inr acc \<and> usable_title i \<and>
      subscript ''url'' (item_url i) = Inr u \<and> source_name (item_source i) = Inr s \<and>
      item_publishedAt i = Str ds \<and> f (py_replace_Z ds) = None \<longrightarrow>
      fetch_news f (Inr data) = Inl (Error_fetching ValueError))"
proof -
  have a: "\<exists>e. fetch_news f (Inr data) = Inl (Error_fetching e)"
    if "i \<in> set (data_items data)" "usable_title i" "item_publishedAt i = Str ds"
      "f (py_replace_Z ds) = None"
  proof -
    from fetch_loop_bad_date[of i "data_items data" ds f "[]"] that
    obtain e where "fetch_loop f (data_items data) [] = Inl e" by blast
    then show ?thesis by (simp add: fetch_news_def data_items_def)
  qed
  have b: "fetch_news f (Inr data) = Inl (Error_fetching ValueError)"
    if "dict_get (data_status data) = Some ''ok''" "data_items data = pre @ i # post"
      "fetch_loop f pre [] = Inr acc" "usable_title i"
      "subscript ''url'' (item_url i) = Inr u" "source_name (item_source i) = Inr s"
      "item_publishedAt i = Str ds" "f (py_replace_Z ds) = None"
  proof -
    from make_article_ValueError[of i u s ds f] that
    have "fetch_loop f (i # post) acc = Inl ValueError" using that(4) by simp
    with that(3) have "fetch_loop f (pre @ i # post) [] = Inl ValueError"
      by (simp add: fetch_loop_append)
    with that(1,2) show ?thesis by (simp add: fetch_news_def data_items_def)
  qed
  from a b show ?thesis by blast
qed


theorem fetch_news_bad_date_fails_witness:
  "fetch_news sample_fromisoformat (Inr (ok_data [removed_item, good_item, bad_date_item, good_item])) =
     Inl (Error_fetching ValueError)"
proof -
  let ?data = "ok_data [removed_item, good_item, bad_date_item, good_item]"
  have d: "data_items ?data = [removed_item, good_item] @ bad_date_item # [good_item]"
    by (simp add: data_items_def ok_data_def)
  have st: "dict_get (data_status ?data) = Some ''ok''"
    by (simp add: ok_data_def dict_get_def)
  have pre: "fetch_loop sample_fromisoformat [removed_item, good_item] [] =
     Inr [NewsArticle (Some ''Markets rallied'') None (Some ''https://example.com/a'')
            (Some ''Example'') ''2024-05-01T10:00:00+00:00'' None (Some [])]"
    by (simp add: dict_get_def dict_get_default_def usable_title_def
      truthy_def removed_item_def good_item_def make_article_def subscript_def source_name_def
      sample_fromisoformat_def py_replace_Z_def)
  have u: "usable_title bad_date_item"
    by (simp add: usable_title_def truthy_def dict_get_def bad_date_item_def good_item_def)
  have f1: "subscript ''url'' (item_url bad_date_item) = Inr (Some ''https://example.com/a'')"
    and f2: "source_name (item_source bad_date_item) = Inr (Some ''Example'')"
    and f3: "item_publishedAt bad_date_item = Str ''not-a-date''"
    and f4: "sample_fromisoformat (py_replace_Z ''not-a-date'') = None"
    by (simp_all add: bad_date_item_def good_item_def subscript_def source_name_def
        sample_fromisoformat_def py_replace_Z_def)
  from fetch_news_bad_date_fails[of bad_date_item ?data "''not-a-date''" sample_fromisoformat
      "[removed_item, good_item]" "[good_item]" _ "Some ''https://example.com/a''" "Some ''Example''"]
    d st pre u f1 f2 f3 f4
  show ?thesis by simp
qed


section \<open>Saving articles\<close>

lemma rows_with_url_conflict: "url_conflict (Some u) r \<longleftrightarrow> row_url r = Some u"
  by (simp add: url_conflict_def)

lemma insert_or_replace_null_title:
  "title a = None \<Longrightarrow> \<exists>m. insert_or_replace fmt now db a c = Inl (IntegrityError m)"
  by (simp add: insert_or_replace_def)

lemma insert_or_replace_same_url:
  assumes "title a = Some t" and "url a = Some u"
  shows "\<exists>db'. insert_or_replace fmt now db a c = Inr db' \<and>
    rows_with_url db' u =
      [(article_values fmt now a t (content a) (Some c) 0)\<lparr>row_id := Suc (articles_seq db)\<rparr>]"
  using assms
  by (simp add: insert_or_replace_def insert_row_def delete_conflicts_def rows_with_url_def
      url_conflict_def article_values_def)

lemma insert_or_replace_other_url:
  assumes "url a \<noteq> Some u" and "insert_or_replace fmt now db a c = Inr db'"
  shows "rows_with_url db' u = rows_with_url db u"
proof -
  from assms(2) obtain t where t: "title a = Some t"
    by (auto simp: insert_or_replace_def split: option.splits)
  have "[r \<leftarrow> [r \<leftarrow> articles db. \<not> url_conflict (url a) r]. row_url r = Some u] =
        [r \<leftarrow> articles db. row_url r = Some u]"
    using assms(1) by (auto simp: url_conflict_def intro: filter_cong)
  with assms t show ?thesis
    by (auto simp: insert_or_replace_def insert_row_def delete_conflicts_def rows_with_url_def
        article_values_def)
qed

lemma save_loop_append:
  "save_loop fmt now cat (xs @ ys) st = save_loop fmt now cat ys (save_loop fmt now cat xs st)"
proof (induction xs arbitrary: st)
  case Nil
  show ?case by (cases st) simp
next
  case (Cons a xs)
  show ?case by (cases st) (auto simp: Cons split: sum.splits sqlite_error.splits)
qed

lemma save_loop_other_urls:
  "\<forall>a\<in>set ys. url a \<noteq> Some u \<Longrightarrow>
   rows_with_url (snd (save_loop fmt now cat ys (n, db))) u = rows_with_url db u"
proof (induction ys arbitrary: n db)
  case Nil
  show ?case by simp
next
  case (Cons a ys)
  show ?case
  proof (cases "insert_or_replace fmt now db a (category_or_general cat)")
    case (Inl e)
    with Cons show ?thesis by (cases e) simp
  next
    case (Inr db')
    with Cons.prems have "rows_with_url db' u = rows_with_url db u"
      using insert_or_replace_other_url[of a u fmt now db "category_or_general cat" db'] by simp
    with Inr Cons show ?thesis by simp
  qed
qed

lemma save_loop_last_write:
  assumes "title a = Some t" and "url a = Some u" and "\<forall>x\<in>set ys. url x \<noteq> Some u"
  shows "\<exists>i. rows_with_url (snd (save_loop fmt now cat (xs @ a # ys) st)) u =
      [(article_values fmt now a t (content a) (Some (category_or_general cat)) 0)\<lparr>row_id := i\<rparr>]"
proof -
  obtain n db where st: "save_loop fmt now cat xs st = (n, db)" by (cases "save_loop fmt now cat xs st")
  from insert_or_replace_same_url[OF assms(1,2), of fmt now db "category_or_general cat"]
  obtain db' where db': "insert_or_replace fmt now db a (category_or_general cat) = Inr db'"
    and rows: "rows_with_url db' u =
      [(article_values fmt now a t (content a) (Some (category_or_general cat)) 0)
         \<lparr>row_id := Suc (articles_seq db)\<rparr>]"
    by blast
  have "save_loop fmt now cat (xs @ a # ys) st = save_loop fmt now cat ys (n + 1, db')"
    by (simp add: save_loop_append st db')
  with save_loop_other_urls[OF assms(3), of fmt now cat "n + 1" db'] rows
  show ?thesis by auto
qed

lemma singleton_rows:
  "length xs = 1 \<Longrightarrow> \<forall>r\<in>set xs. f r = v \<Longrightarrow> map f xs = [v]"
  by (cases xs) auto

text \<open>
  C1. After two calls of \<open>save_articles\<close>, the first with an article of url \<open>u\<close> and the second
  with an article \<open>b\<close> of the same url (and a title) that no later article of the second call
  overwrites, the table has exactly one row of url \<open>u\<close>, and its title, description,
  content, source, publication date, image, sentiment, keywords and category are those of
  the second call.
\<close>

theorem save_articles_last_write_wins:
  fixes db :: database and fmt :: "'d \<Rightarrow> string" and a b :: "'d news_article"
    and xs ys xs' ys' :: "'d news_article list" and now now' :: nat
    and c c' :: "string option"
  assumes "url a = Some u" and "url b = Some u" and "title b = Some t"
    and "\<forall>x\<in>set ys'. url x \<noteq> Some u"
  defines "dba \<equiv> snd (save_articles fmt now db (xs @ a # ys) c)"
  defines "dbb \<equiv> snd (save_articles fmt now' dba (xs' @ b # ys') c')"
  shows "length (rows_with_url dbb u) = 1 \<and>
    (\<forall>r\<in>set (rows_with_url dbb u).
       row_title r = t \<and> row_description r = description b \<and> row_content r = content b \<and>
       row_source r = source b \<and> row_published_at r = fmt (published_at b) \<and>
       row_image_url r = image_url b \<and> row_sentiment_score r = sentiment_score b \<and>
       row_sentiment_label r = sentiment_label b \<and>
       row_keywords r = py_join '','' (keywords' b) \<and>
       row_category r = Some (category_or_general c'))"
proof -
  from save_loop_last_write[OF assms(3,2,4), of fmt now' c' xs' "(0, dba)"]
  obtain i where "rows_with_url dbb u =
      [(article_values fmt now' b t (content b) (Some (category_or_general c')) 0)\<lparr>row_id := i\<rparr>]"
    unfolding dbb_def save_articles_def by blast
  then show ?thesis by (simp add: article_values_def)
qed

theorem save_articles_last_write_wins_witness:
  "map row_title
     (rows_with_url
        (snd (save_articles sample_isoformat 2
               (snd (save_articles sample_isoformat 1 setup_database ([] @ article_a # []) None))
               ([] @ article_b # []) None))
        ''https://example.com/a'') = [''Second title'']"
proof -
  have h1: "url article_a = Some ''https://example.com/a''"
    and h2: "url article_b = Some ''https://example.com/a''"
    and h3: "title article_b = Some ''Second title''"
    by (simp_all add: article_a_def article_b_def NewsArticle_def)
  have h4: "\<forall>x\<in>set ([] :: string news_article list). url x \<noteq> Some ''https://example.com/a''"
    by simp
  note t = save_articles_last_write_wins[OF h1 h2 h3 h4, where fmt = sample_isoformat
      and now' = 2 and now = 1 and db = setup_database and xs = "[]" and ys = "[]"
      and c = None and xs' = "[]" and c' = None]
  from t show ?thesis by (intro singleton_rows) simp_all
qed

lemma insert_or_replace_invariant:
  assumes "insert_or_replace fmt now db a c = Inr db'"
    and "(length (rows_with_url db u) = 1 \<and> (\<forall>r\<in>set (rows_with_url db u). row_bookmarked r = 0))
         \<or> url a = Some u"
  shows "length (rows_with_url db' u) = 1 \<and> (\<forall>r\<in>set (rows_with_url db' u). row_bookmarked r = 0)"
proof (cases "url a = Some u")
  case True
  from assms(1) obtain t where t: "title a = Some t"
    by (auto simp: insert_or_replace_def split: option.splits)
  from insert_or_replace_same_url[OF t True, of fmt now db c] assms(1)
  show ?thesis by (auto simp: article_values_def)
next
  case False
  with insert_or_replace_other_url[OF False assms(1)] assms(2) show ?thesis by simp
qed

lemma save_loop_resets_bookmark:
  assumes "(length (rows_with_url db u) = 1 \<and> (\<forall>r\<in>set (rows_with_url db u). row_bookmarked r = 0))
         \<or> (\<exists>a\<in>set arts. url a = Some u \<and> title a \<noteq> None)"
  shows "length (rows_with_url (snd (save_loop fmt now cat arts (n, db))) u) = 1 \<and>
    (\<forall>r\<in>set (rows_with_url (snd (save_loop fmt now cat arts (n, db))) u). row_bookmarked r = 0)"
  using assms
proof (induction arts arbitrary: n db)
  case Nil
  then show ?case by simp
next
  case (Cons a arts)
  let ?P = "\<lambda>d. length (rows_with_url d u) = 1 \<and> (\<forall>r\<in>set (rows_with_url d u). row_bookmarked r = 0)"
  show ?case
  proof (cases "insert_or_replace fmt now db a (category_or_general cat)")
    case (Inl e)
    then have "title a = None"
      by (auto simp: insert_or_replace_def split: option.splits)
    with Cons.prems have "?P db \<or> (\<exists>a\<in>set arts. url a = Some u \<and> title a \<noteq> None)" by auto
    from Cons.IH[OF this, of n] Inl show ?thesis by (cases e) simp
  next
    case (Inr db')
    have "?P db' \<or> (\<exists>a\<in>set arts. url a = Some u \<and> title a \<noteq> None)"
    proof (cases "?P db \<or> url a = Some u")
      case True
      from insert_or_replace_invariant[OF Inr True] show ?thesis by simp
    next
      case False
      with Cons.prems show ?thesis by auto
    qed
    from Cons.IH[OF this, of "n + 1"] Inr show ?thesis by simp
  qed
qed

text \<open>
  C2. If a row of url \<open>u\<close> is bookmarked and \<open>save_articles\<close> is then called with an article
  of url \<open>u\<close> (and a title), the table has exactly one row of url \<open>u\<close> afterwards and its
  \<open>bookmarked\<close> flag is 0: the bookmarked row is gone and the replacement row takes the
  default of the column.
\<close>

theorem save_articles_resets_bookmark:
  fixes db :: database and fmt :: "'d \<Rightarrow> string" and a :: "'d news_article"
    and arts :: "'d news_article list" and now :: nat and c :: "string option"
  assumes "r0 \<in> set (articles db)" and "row_url r0 = Some u" and "row_bookmarked r0 = 1"
    and "a \<in> set arts" and "url a = Some u" and "title a = Some t"
  defines "db' \<equiv> snd (save_articles fmt now db arts c)"
  shows "length (rows_with_url db' u) = 1 \<and>
    (\<forall>r\<in>set (rows_with_url db' u). row_bookmarked r = 0) \<and> r0 \<notin> set (articles db')"
proof -
  from assms(4-6) have "\<exists>a\<in>set arts. url a = Some u \<and> title a \<noteq> None" by auto
  then have reset: "length (rows_with_url db' u) = 1 \<and>
      (\<forall>r\<in>set (rows_with_url db' u). row_bookmarked r = 0)"
    unfolding db'_def save_articles_def using save_loop_resets_bookmark[of db u arts fmt now c 0]
    by blast
  have "r0 \<notin> set (articles db')"
  proof
    assume "r0 \<in> set (articles db')"
    with assms(2) have "r0 \<in> set (rows_with_url db' u)" by (simp add: rows_with_url_def)
    with reset have "row_bookmarked r0 = 0" by blast
    with assms(3) show False by simp
  qed
  with reset show ?thesis by blast
qed

theorem save_articles_resets_bookmark_witness:
  "row_bookmarked bookmarked_row = 1 \<and>
   map row_bookmarked
     (rows_with_url (snd (save_articles sample_isoformat 5 sample_db [article_b] None))
        ''https://example.com/a'') = [0]"
proof -
  have h1: "bookmarked_row \<in> set (articles sample_db)"
    and h2: "row_url bookmarked_row = Some ''https://example.com/a''"
    and h3: "row_bookmarked bookmarked_row = 1"
    and h4: "article_b \<in> set [article_b]"
    and h5: "url article_b = Some ''https://example.com/a''"
    and h6: "title article_b = Some ''Second title''"
    by (simp_all add: sample_db_def bookmarked_row_def article_b_def NewsArticle_def)
  note t = save_articles_resets_bookmark[OF h1 h2 h3 h4 h5 h6, where fmt = sample_isoformat
      and now = 5 and c = None]
  from t have "map row_bookmarked
     (rows_with_url (snd (save_articles sample_isoformat 5 sample_db [article_b] None))
        ''https://example.com/a'') = [0]"
    by (intro singleton_rows) simp_all
  with h3 show ?thesis by simp
qed


section \<open>Bookmarks\<close>

lemma process_article_fields:
  "title (process_article h p a) = title a"
  "url (process_article h p a) = url a"
  "content (process_article h p a) = content a"
  by (simp_all add: process_article_def split: prod.splits)

lemma no_rows_no_conflict:
  "rows_with_url db u = [] \<Longrightarrow> \<not> (\<exists>r\<in>set (articles db). url_conflict (Some u) r)"
  by (auto simp: rows_with_url_def url_conflict_def filter_empty_conv)

lemma toggle_bookmark_new:
  assumes "url a = Some u" and "title a = Some t" and "rows_with_url db u = []"
  shows "toggle_bookmark h p fmt now db a =
    (insert_row db (article_values fmt now (process_article h p a) t
        (Some (case content a of None \<Rightarrow> [] | Some c \<Rightarrow> c)) None 1),
     Showinfo ''Bookmark'' ''Article added to bookmarks!'')"
proof -
  from assms(3) have sel: "select_bookmarked db (Some u) = None"
    by (simp add: select_bookmarked_def rows_with_url_def url_conflict_def)
  from no_rows_no_conflict[OF assms(3)] assms(1,2)
  have "insert_bookmarked fmt now db (process_article h p a) =
      Inr (insert_row db (article_values fmt now (process_article h p a) t
        (Some (case content a of None \<Rightarrow> [] | Some c \<Rightarrow> c)) None 1))"
    by (simp add: insert_bookmarked_def process_article_fields)
  with sel assms(1) show ?thesis by (simp add: toggle_bookmark_def)
qed

lemma toggle_bookmark_existing:
  assumes "url a = Some u" and "rows_with_url db u = r0 # rs"
  shows "toggle_bookmark h p fmt now db a =
    (update_bookmarked db (1 - row_bookmarked r0) (Some u),
     Showinfo ''Bookmark''
       (if row_bookmarked r0 = 1 then ''Article removed from bookmarks!''
        else ''Article added to bookmarks!''))"
proof -
  from assms(2) have sel: "select_bookmarked db (Some u) = Some (row_bookmarked r0)"
    by (simp add: select_bookmarked_def rows_with_url_def url_conflict_def)
  with assms(1) show ?thesis by (simp add: toggle_bookmark_def Let_def)
qed

lemma rows_with_url_insert_row:
  "rows_with_url (insert_row db r) u =
     rows_with_url db u @ (if row_url r = Some u then [r\<lparr>row_id := Suc (articles_seq db)\<rparr>] else [])"
  by (simp add: rows_with_url_def insert_row_def)

lemma rows_with_url_update_bookmarked:
  "rows_with_url (update_bookmarked db b (Some u)) u =
     map (\<lambda>r. r\<lparr>row_bookmarked := b\<rparr>) (rows_with_url db u)"
proof -
  have "[r \<leftarrow> map (\<lambda>r. if row_url r = Some u then r\<lparr>row_bookmarked := b\<rparr> else r) rows.
          row_url r = Some u] =
        map (\<lambda>r. r\<lparr>row_bookmarked := b\<rparr>) [r \<leftarrow> rows. row_url r = Some u]" for rows
    by (induction rows) auto
  then show ?thesis
    by (simp add: rows_with_url_def update_bookmarked_def url_conflict_def)
qed

text \<open>
  C8. \<open>toggle_bookmark\<close> on an article whose url has no row appends one row for it, with
  \<open>bookmarked = 1\<close>, and reports "added"; called again, it sets that row to 0 and reports
  "removed". On an article whose url has a row \<open>r0\<close> it changes nothing but that row's
  flag, which becomes \<open>1 - bookmarked\<close> (1 from 0, 0 from 1), and reports the new state.
\<close>

theorem toggle_bookmark_insert_then_flip:
  fixes db :: database and fmt :: "'d \<Rightarrow> string" and a :: "'d news_article"
    and h :: bool and p :: "string \<Rightarrow> real option" and now now' :: nat
  defines "res \<equiv> toggle_bookmark h p fmt now db a"
  defines "res' \<equiv> toggle_bookmark h p fmt now' (fst res) a"
  assumes "url a = Some u"
  shows "(title a = Some t \<and> rows_with_url db u = [] \<longrightarrow>
      snd res = Showinfo ''Bookmark'' ''Article added to bookmarks!'' \<and>
      articles (fst res) = articles db @ rows_with_url (fst res) u \<and>
      length (rows_with_url (fst res) u) = 1 \<and>
      (\<forall>r\<in>set (rows_with_url (fst res) u). row_bookmarked r = 1 \<and> row_title r = t) \<and>
      snd res' = Showinfo ''Bookmark'' ''Article removed from bookmarks!'' \<and>
      length (rows_with_url (fst res') u) = 1 \<and>
      (\<forall>r\<in>set (rows_with_url (fst res') u). row_bookmarked r = 0 \<and> row_title r = t)) \<and>
    (rows_with_url db u = [r0] \<longrightarrow>
      articles (fst res) =
        map (\<lambda>r. if row_url r = Some u then r\<lparr>row_bookmarked := 1 - row_bookmarked r0\<rparr> else r)
          (articles db) \<and>
      rows_with_url (fst res) u = [r0\<lparr>row_bookmarked := 1 - row_bookmarked r0\<rparr>] \<and>
      snd res = Showinfo ''Bookmark''
        (if row_bookmarked r0 = 1 then ''Article removed from bookmarks!''
         else ''Article added to bookmarks!'') \<and>
      (row_bookmarked r0 = 0 \<longrightarrow> 1 - row_bookmarked r0 = 1) \<and>
      (row_bookmarked r0 = 1 \<longrightarrow> 1 - row_bookmarked r0 = 0))"
proof -
  have new: "snd res = Showinfo ''Bookmark'' ''Article added to bookmarks!'' \<and>
      articles (fst res) = articles db @ rows_with_url (fst res) u \<and>
      length (rows_with_url (fst res) u) = 1 \<and>
      (\<forall>r\<in>set (rows_with_url (fst res) u). row_bookmarked r = 1 \<and> row_title r = t) \<and>
      snd res' = Showinfo ''Bookmark'' ''Article removed from bookmarks!'' \<and>
      length (rows_with_url (fst res') u) = 1 \<and>
      (\<forall>r\<in>set (rows_with_url (fst res') u). row_bookmarked r = 0 \<and> row_title r = t)"
    if t: "title a = Some t" and e: "rows_with_url db u = []"
  proof -
    let ?row = "article_values fmt now (process_article h p a) t
        (Some (case content a of None \<Rightarrow> [] | Some c \<Rightarrow> c)) None 1"
    let ?new = "?row\<lparr>row_id := Suc (articles_seq db)\<rparr>"
    have res: "res = (insert_row db ?row, Showinfo ''Bookmark'' ''Article added to bookmarks!'')"
      unfolding res_def by (rule toggle_bookmark_new[OF assms(3) t e])
    have u: "row_url ?row = Some u"
      by (simp add: article_values_def process_article_fields assms(3))
    have rows: "rows_with_url (fst res) u = [?new]"
      by (simp add: res rows_with_url_insert_row e u)
    have arts: "articles (fst res) = articles db @ [?new]"
      by (simp add: res insert_row_def)
    have res': "res' = (update_bookmarked (fst res) (1 - row_bookmarked ?new) (Some u),
        Showinfo ''Bookmark''
          (if row_bookmarked ?new = 1 then ''Article removed from bookmarks!''
           else ''Article added to bookmarks!''))"
      unfolding res'_def by (rule toggle_bookmark_existing[OF assms(3) rows])
    have rows': "rows_with_url (fst res') u = [?new\<lparr>row_bookmarked := 0\<rparr>]"
      by (simp add: res' rows_with_url_update_bookmarked rows article_values_def)
    have b: "row_bookmarked ?new = 1" and ti: "row_title ?new = t"
      by (simp_all add: article_values_def)
    show ?thesis
      unfolding rows rows' arts by (simp add: res res' article_values_def)
  qed
  have old: "articles (fst res) =
        map (\<lambda>r. if row_url r = Some u then r\<lparr>row_bookmarked := 1 - row_bookmarked r0\<rparr> else r)
          (articles db) \<and>
      rows_with_url (fst res) u = [r0\<lparr>row_bookmarked := 1 - row_bookmarked r0\<rparr>] \<and>
      snd res = Showinfo ''Bookmark''
        (if row_bookmarked r0 = 1 then ''Article removed from bookmarks!''
         else ''Article added to bookmarks!'')"
    if e: "rows_with_url db u = [r0]"
  proof -
    have res: "res = (update_bookmarked db (1 - row_bookmarked r0) (Some u),
        Showinfo ''Bookmark''
          (if row_bookmarked r0 = 1 then ''Article removed from bookmarks!''
           else ''Article added to bookmarks!''))"
      unfolding res_def by (rule toggle_bookmark_existing[OF assms(3) e])
    show ?thesis
      by (simp add: res rows_with_url_update_bookmarked e)
         (simp add: update_bookmarked_def url_conflict_def)
  qed
  from new old show ?thesis by simp
qed


theorem toggle_bookmark_insert_then_flip_witness:
  "snd (toggle_bookmark False raising_oracle sample_isoformat 1 setup_database article_a) =
     Showinfo ''Bookmark'' ''Article added to bookmarks!'' \<and>
   map row_bookmarked
     (rows_with_url
        (fst (toggle_bookmark False raising_oracle sample_isoformat 1 setup_database article_a))
        ''https://example.com/a'') = [1] \<and>
   snd (toggle_bookmark False raising_oracle sample_isoformat 2
          (fst (toggle_bookmark False raising_oracle sample_isoformat 1 setup_database article_a))
          article_a) =
     Showinfo ''Bookmark'' ''Article removed from bookmarks!'' \<and>
   map row_bookmarked
     (rows_with_url
        (fst (toggle_bookmark False raising_oracle sample_isoformat 2
               (fst (toggle_bookmark False raising_oracle sample_isoformat 1 setup_database
                      article_a))
               article_a))
        ''https://example.com/a'') = [0] \<and>
   snd (toggle_bookmark False raising_oracle sample_isoformat 7 sample_db article_a) =
     Showinfo ''Bookmark'' ''Article removed from bookmarks!'' \<and>
   rows_with_url (fst (toggle_bookmark False raising_oracle sample_isoformat 7 sample_db article_a))
     ''https://example.com/a'' = [bookmarked_row\<lparr>row_bookmarked := 0\<rparr>]"
proof -
  let ?u = "''https://example.com/a''"
  have hu: "url article_a = Some ?u" and ht: "title article_a = Some ''First title''"
    by (simp_all add: article_a_def NewsArticle_def)
  have e: "rows_with_url setup_database ?u = []"
    by (simp add: rows_with_url_def setup_database_def)
  have o: "rows_with_url sample_db ?u = [bookmarked_row]"
    and b: "row_bookmarked bookmarked_row = 1"
    by (simp_all add: rows_with_url_def sample_db_def bookmarked_row_def)
  note new = toggle_bookmark_insert_then_flip[OF hu, where h = False and p = raising_oracle
      and fmt = sample_isoformat and now = 1 and now' = 2 and db = setup_database
      and t = "''First title''", THEN conjunct1, rule_format, OF conjI, OF ht e]
  note old = toggle_bookmark_insert_then_flip[OF hu, where h = False and p = raising_oracle
      and fmt = sample_isoformat and now = 7 and db = sample_db and ?r0.0 = bookmarked_row,
      THEN conjunct2, rule_format, OF o]
  from new have n1: "snd (toggle_bookmark False raising_oracle sample_isoformat 1 setup_database
        article_a) = Showinfo ''Bookmark'' ''Article added to bookmarks!''"
    by blast
  from new have n2: "map row_bookmarked
     (rows_with_url
        (fst (toggle_bookmark False raising_oracle sample_isoformat 1 setup_database article_a))
        ?u) = [1]"
    by (intro singleton_rows) simp_all
  from new have n3: "snd (toggle_bookmark False raising_oracle sample_isoformat 2
          (fst (toggle_bookmark False raising_oracle sample_isoformat 1 setup_database article_a))
          article_a) = Showinfo ''Bookmark'' ''Article removed from bookmarks!''"
    by blast
  from new have n4: "map row_bookmarked
     (rows_with_url
        (fst (toggle_bookmark False raising_oracle sample_isoformat 2
               (fst (toggle_bookmark False raising_oracle sample_isoformat 1 setup_database
                      article_a))
               article_a))
        ?u) = [0]"
    by (intro singleton_rows) simp_all
  from old b have o1: "snd (toggle_bookmark False raising_oracle sample_isoformat 7 sample_db
        article_a) = Showinfo ''Bookmark'' ''Article removed from bookmarks!''"
    by simp
  from old b have o2: "rows_with_url
      (fst (toggle_bookmark False raising_oracle sample_isoformat 7 sample_db article_a)) ?u =
      [bookmarked_row\<lparr>row_bookmarked := 0\<rparr>]"
    by simp
  from n1 n2 n3 n4 o1 o2 show ?thesis by blast
qed


section \<open>Recent searches\<close>

text \<open>
  C9. After the queries ai, ai, space, ai, moon, space are recorded at six successive
  times, \<open>load_recent_searches\<close> returns moon, space, ai: the DISTINCT filter keeps the
  oldest row of each query, so a query is ordered by its first occurrence, not by its most
  recent one.
\<close>

theorem load_recent_searches_oldest_occurrence:
  "load_recent_searches
     (record_searches setup_database
        [(1, ''ai''), (2, ''ai''), (3, ''space''), (4, ''ai''), (5, ''moon''), (6, ''space'')]) =
   [''moon'', ''space'', ''ai'']"
  by code_simp

end
